theory Spec2Isabelle
  imports Main "HOL-Library.AList" "HOL-Library.Sublist"
begin

section \<open>The Smithy client instrumentation of lib/v3/smithy-client.js\<close>

text \<open>
  The file registers two middleware on the middleware stack of an AWS SDK v3 client:
  \<^verbatim>\<open>headerMiddleware\<close>, which marks the outgoing request, and \<^verbatim>\<open>attrMiddleware\<close>, which
  copies four attributes onto the tracing segment through \<^verbatim>\<open>addAwsAttributes\<close>.
  The middleware stack, the next handler, the region provider, the segment lookup and the
  segment itself belong to the host; they are parameters of the model.
\<close>

subsection \<open>JavaScript values\<close>

text \<open>
  The values that flow through the file are plain data: \<^verbatim>\<open>undefined\<close>, \<^verbatim>\<open>null\<close>, booleans,
  numbers (integers only here; \<^verbatim>\<open>NaN\<close> and fractions are not represented), strings, and
  objects, an object being the list of its own properties. A lookup takes the first entry
  of a key.
\<close>

datatype jsval =
    JUndefined
  | JNull
  | JBool bool
  | JNum int
  | JStr string
  | JObj "(string \<times> jsval) list"

text \<open>What a \<^verbatim>\<open>throw\<close> carries: the engine's \<^verbatim>\<open>TypeError\<close>, or a value thrown by the host.\<close>

datatype js_error = TypeError | Thrown jsval

text \<open>
  \<^verbatim>\<open>v[k]\<close> and \<^verbatim>\<open>v.k\<close>: reading a property of \<^verbatim>\<open>undefined\<close> or \<^verbatim>\<open>null\<close> throws a TypeError, a missing
  property reads as \<^verbatim>\<open>undefined\<close>, and so does each property name of this file on a
  boolean, a number or a string.
\<close>

fun get_prop :: "jsval \<Rightarrow> string \<Rightarrow> js_error + jsval" where
  "get_prop JUndefined k = Inl TypeError"
| "get_prop JNull k = Inl TypeError"
| "get_prop (JObj ps) k = Inr (case map_of ps k of None \<Rightarrow> JUndefined | Some v \<Rightarrow> v)"
| "get_prop v k = Inr JUndefined"

text \<open>
  \<^verbatim>\<open>v[k] = x\<close> under \<^verbatim>\<open>'use strict'\<close>: a TypeError unless \<^verbatim>\<open>v\<close> is an object; on an object the
  entry of \<^verbatim>\<open>k\<close> is replaced, or added when there is none.
\<close>

fun put_prop :: "jsval \<Rightarrow> string \<Rightarrow> jsval \<Rightarrow> js_error + jsval" where
  "put_prop (JObj ps) k x = Inr (JObj (AList.update k x ps))"
| "put_prop v k x = Inl TypeError"

text \<open>
  Objects are references in JavaScript and values here: after a property of a child object
  is assigned, \<open>write_back\<close> gives the parent that holds the assigned child.
\<close>

fun write_back :: "jsval \<Rightarrow> string \<Rightarrow> jsval \<Rightarrow> jsval" where
  "write_back (JObj ps) k x = JObj (AList.update k x ps)"
| "write_back v k x = v"

text \<open>Truthiness, and the operator \<^verbatim>\<open>a || b\<close>.\<close>

fun truthy :: "jsval \<Rightarrow> bool" where
  "truthy JUndefined = False"
| "truthy JNull = False"
| "truthy (JBool b) = b"
| "truthy (JNum n) = (n \<noteq> 0)"
| "truthy (JStr s) = (s \<noteq> [])"
| "truthy (JObj ps) = True"

definition js_or :: "jsval \<Rightarrow> jsval \<Rightarrow> jsval" where
  "js_or a b = (if truthy a then a else b)"

definition UNKNOWN :: jsval where
  "UNKNOWN = JStr ''Unknown''"

subsection \<open>The host: shim, segments, configuration, stack\<close>

type_synonym segment = nat

text \<open>
  \<open>getSegment\<close> is \<^verbatim>\<open>shim.getSegment\<close>: it throws, or returns a segment, or returns nothing
  (\<^verbatim>\<open>null\<close> or \<^verbatim>\<open>undefined\<close>, the value \<open>None\<close>). \<open>addAttribute\<close> is the method of the segment:
  \<open>Some e\<close> when the call throws \<open>e\<close>, in which case the segment records nothing.
  \<^verbatim>\<open>shim.logger.debug\<close> is a sink that does not throw.
\<close>

record shim =
  getSegment :: "jsval \<Rightarrow> js_error + segment option"
  addAttribute :: "segment \<Rightarrow> string \<Rightarrow> jsval \<Rightarrow> js_error option"

text \<open>
  The client configuration: the property \<^verbatim>\<open>serviceId\<close> (\<open>JUndefined\<close> when there is none) and
  the outcome of \<^verbatim>\<open>await config.region()\<close>, a value or a throw.
\<close>

record config =
  serviceId :: jsval
  region :: "js_error + jsval"

text \<open>The calls made on the host, in the order they are made.\<close>

datatype event =
    RegionResolved "js_error + jsval"
  | Logged js_error string
  | NextInvoked jsval
  | SegmentLookup jsval
  | AttributeAdded segment string jsval

text \<open>
  An effectful computation gives its outcome (a throw to the left, a value to the right)
  and the calls it made. They are kept when it throws.
\<close>

type_synonym 'a eff = "(js_error + 'a) \<times> event list"

definition ret :: "'a \<Rightarrow> 'a eff" where
  "ret x = (Inr x, [])"

definition lift :: "js_error + 'a \<Rightarrow> 'a eff" where
  "lift r = (r, [])"

definition and_then :: "'a eff \<Rightarrow> ('a \<Rightarrow> 'b eff) \<Rightarrow> 'b eff" where
  "and_then m f =
     (case m of
        (Inl e, evs) \<Rightarrow> (Inl e, evs)
      | (Inr x, evs) \<Rightarrow> (case f x of (r, evs') \<Rightarrow> (r, evs @ evs')))"

definition try_catch :: "'a eff \<Rightarrow> (js_error \<Rightarrow> 'a eff) \<Rightarrow> 'a eff" where
  "try_catch m h =
     (case m of
        (Inl e, evs) \<Rightarrow> (case h e of (r, evs') \<Rightarrow> (r, evs @ evs'))
      | (Inr x, evs) \<Rightarrow> (Inr x, evs))"

definition logger_debug :: "js_error \<Rightarrow> string \<Rightarrow> jsval eff" where
  "logger_debug err msg = (Inr JUndefined, [Logged err msg])"

definition shim_getSegment :: "shim \<Rightarrow> jsval \<Rightarrow> segment option eff" where
  "shim_getSegment sh handle = (getSegment sh handle, [SegmentLookup handle])"

text \<open>
  \<^verbatim>\<open>segment.addAttribute(k, v)\<close>: a TypeError when \<^verbatim>\<open>segment\<close> is nothing, the throw of the
  method when it throws, and otherwise the attribute is on the segment.
\<close>

definition segment_addAttribute :: "shim \<Rightarrow> segment option \<Rightarrow> string \<Rightarrow> jsval \<Rightarrow> jsval eff" where
  "segment_addAttribute sh segment k v =
     (case segment of
        None \<Rightarrow> (Inl TypeError, [])
      | Some seg \<Rightarrow>
          (case addAttribute sh seg k v of
             Some e \<Rightarrow> (Inl e, [])
           | None \<Rightarrow> (Inr JUndefined, [AttributeAdded seg k v])))"

subsection \<open>addAwsAttributes\<close>

definition addAwsAttributes ::
  "shim \<Rightarrow> jsval \<Rightarrow> config \<Rightarrow> jsval \<Rightarrow> jsval \<Rightarrow> jsval eff" where
  "addAwsAttributes sh result cfg rgn context =
     and_then
       (try_catch
          (and_then (lift (get_prop result ''response'')) (\<lambda>response.
           and_then (lift (get_prop response ''body'')) (\<lambda>body.
           and_then (lift (get_prop body ''req'')) (\<lambda>req.
           and_then (shim_getSegment sh req) (\<lambda>segment.
           and_then (lift (get_prop context ''commandName'')) (\<lambda>commandName.
           and_then (segment_addAttribute sh segment ''aws.operation'' (js_or commandName UNKNOWN)) (\<lambda>_.
           and_then (lift (get_prop response ''headers'')) (\<lambda>headers.
           and_then (lift (get_prop headers ''x-amzn-requestid'')) (\<lambda>requestid.
           and_then (segment_addAttribute sh segment ''aws.requestId'' (js_or requestid UNKNOWN)) (\<lambda>_.
           and_then (segment_addAttribute sh segment ''aws.service'' (js_or (serviceId cfg) UNKNOWN)) (\<lambda>_.
           segment_addAttribute sh segment ''aws.region'' (js_or rgn UNKNOWN))))))))))))
          (\<lambda>err. logger_debug err ''Failed to add AWS attributes to segment''))
       (\<lambda>_. ret JUndefined)"

subsection \<open>attrMiddleware\<close>

text \<open>
  \<^verbatim>\<open>try { region = await config.region() } catch (err) { log } finally { ... return result }\<close>:
  the region stays \<^verbatim>\<open>undefined\<close> when the provider throws, and the \<^verbatim>\<open>finally\<close> block runs in
  both cases. A throw of \<^verbatim>\<open>await next(args)\<close> leaves the middleware.
\<close>

definition resolve_region :: "config \<Rightarrow> jsval eff" where
  "resolve_region cfg =
     try_catch (region cfg, [RegionResolved (region cfg)])
       (\<lambda>err. and_then (logger_debug err ''Failed to get the AWS region'') (\<lambda>_. ret JUndefined))"

definition call_next :: "(jsval \<Rightarrow> js_error + jsval) \<Rightarrow> jsval \<Rightarrow> jsval eff" where
  "call_next next args = (next args, [NextInvoked args])"

definition attrMiddleware ::
  "shim \<Rightarrow> config \<Rightarrow> (jsval \<Rightarrow> js_error + jsval) \<Rightarrow> jsval \<Rightarrow> jsval \<Rightarrow> jsval eff" where
  "attrMiddleware sh cfg next context args =
     and_then (resolve_region cfg) (\<lambda>rgn.
     and_then (call_next next args) (\<lambda>result.
     and_then (addAwsAttributes sh result cfg rgn context) (\<lambda>_.
     ret result)))"

subsection \<open>headerMiddleware\<close>

definition DISABLE_DT :: string where
  "DISABLE_DT = ''x-new-relic-disable-dt''"

text \<open>
  \<^verbatim>\<open>args.request.headers['x-new-relic-disable-dt'] = 'true'\<close>, giving \<^verbatim>\<open>args\<close> as it is after
  the assignment.
\<close>

definition set_disable_dt :: "jsval \<Rightarrow> js_error + jsval" where
  "set_disable_dt args =
     (case get_prop args ''request'' of
        Inl e \<Rightarrow> Inl e
      | Inr request \<Rightarrow>
          (case get_prop request ''headers'' of
             Inl e \<Rightarrow> Inl e
           | Inr headers \<Rightarrow>
               (case put_prop headers DISABLE_DT (JStr ''true'') of
                  Inl e \<Rightarrow> Inl e
                | Inr headers' \<Rightarrow>
                    Inr (write_back args ''request'' (write_back request ''headers'' headers')))))"

text \<open>
  The middleware gives its outcome with the calls it made, and the \<^verbatim>\<open>args\<close> object as it is
  when the middleware is done.
\<close>

definition headerMiddleware ::
  "shim \<Rightarrow> (jsval \<Rightarrow> js_error + jsval) \<Rightarrow> jsval \<Rightarrow> jsval eff \<times> jsval" where
  "headerMiddleware sh next args =
     (case set_disable_dt args of
        Inl e \<Rightarrow> ((Inl e, []), args)
      | Inr args' \<Rightarrow> (call_next next args', args'))"

text \<open>\<^verbatim>\<open>args.request.headers\<close>, read.\<close>

definition request_headers :: "jsval \<Rightarrow> js_error + jsval" where
  "request_headers args =
     (case get_prop args ''request'' of
        Inl e \<Rightarrow> Inl e
      | Inr request \<Rightarrow> get_prop request ''headers'')"

subsection \<open>getPlugin and applyToStack\<close>

datatype middleware = HeaderMiddleware shim | AttrMiddleware shim config

record entry =
  handler :: middleware
  name :: string
  step :: string
  priority :: "string option"

text \<open>
  \<^verbatim>\<open>clientStack.add\<close> belongs to the host: \<open>refuses\<close> says when it throws (a duplicate name,
  for one), and otherwise the entry is on the stack.
\<close>

definition stack_add ::
  "(entry list \<Rightarrow> entry \<Rightarrow> js_error option) \<Rightarrow> entry list \<Rightarrow> entry \<Rightarrow> (js_error + jsval) \<times> entry list" where
  "stack_add refuses clientStack e =
     (case refuses clientStack e of
        Some err \<Rightarrow> (Inl err, clientStack)
      | None \<Rightarrow> (Inr JUndefined, clientStack @ [e]))"

definition header_entry :: "shim \<Rightarrow> entry" where
  "header_entry sh =
     \<lparr>handler = HeaderMiddleware sh, name = ''NewRelicHeader'',
      step = ''finalizeRequest'', priority = Some ''low''\<rparr>"

definition attr_entry :: "shim \<Rightarrow> config \<Rightarrow> entry" where
  "attr_entry sh cfg =
     \<lparr>handler = AttrMiddleware sh cfg, name = ''NewRelicDeserialize'',
      step = ''deserialize'', priority = None\<rparr>"

definition applyToStack ::
  "shim \<Rightarrow> config \<Rightarrow> (entry list \<Rightarrow> entry \<Rightarrow> js_error option) \<Rightarrow> entry list
     \<Rightarrow> (js_error + jsval) \<times> entry list" where
  "applyToStack sh cfg refuses clientStack =
     (case stack_add refuses clientStack (header_entry sh) of
        (Inl err, stack1) \<Rightarrow> (Inl err, stack1)
      | (Inr _, stack1) \<Rightarrow>
          (case stack_add refuses stack1 (attr_entry sh cfg) of
             (Inl err, stack2) \<Rightarrow> (Inl err, stack2)
           | (Inr _, stack2) \<Rightarrow> (Inr JUndefined, stack2)))"

subsection \<open>Observations on the calls made\<close>

fun is_next :: "event \<Rightarrow> bool" where
  "is_next (NextInvoked a) = True"
| "is_next e = False"

fun is_region :: "event \<Rightarrow> bool" where
  "is_region (RegionResolved r) = True"
| "is_region e = False"

fun is_log :: "event \<Rightarrow> bool" where
  "is_log (Logged err msg) = True"
| "is_log e = False"

text \<open>The attributes the segments have received, in order.\<close>

fun added :: "event list \<Rightarrow> (segment \<times> string \<times> jsval) list" where
  "added [] = []"
| "added (AttributeAdded s k v # evs) = (s, k, v) # added evs"
| "added (e # evs) = added evs"

definition added_keys :: "event list \<Rightarrow> string list" where
  "added_keys evs = map (\<lambda>(s, k, v). k) (added evs)"

definition recorded_for :: "segment \<Rightarrow> string \<Rightarrow> event list \<Rightarrow> jsval list" where
  "recorded_for seg key evs = map (\<lambda>(s, k, v). v) (filter (\<lambda>(s, k, v). s = seg \<and> k = key) (added evs))"

text \<open>
  \<^verbatim>\<open>shim.getSegment(result.response.body.req)\<close>, the first two statements of the \<^verbatim>\<open>try\<close> block
  of \<^verbatim>\<open>addAwsAttributes\<close>, as a value.
\<close>

definition located_segment :: "shim \<Rightarrow> jsval \<Rightarrow> js_error + segment option" where
  "located_segment sh result =
     (case get_prop result ''response'' of
        Inl e \<Rightarrow> Inl e
      | Inr response \<Rightarrow>
          (case get_prop response ''body'' of
             Inl e \<Rightarrow> Inl e
           | Inr body \<Rightarrow>
               (case get_prop body ''req'' of
                  Inl e \<Rightarrow> Inl e
                | Inr req \<Rightarrow> getSegment sh req)))"

text \<open>
  The four calls of \<^verbatim>\<open>addAttribute\<close> in the \<^verbatim>\<open>try\<close> block of \<^verbatim>\<open>addAwsAttributes\<close>, in the order
  of the source: the key of each, and its argument as the source evaluates it, which is a
  throw when reading \<^verbatim>\<open>context.commandName\<close> or \<^verbatim>\<open>response.headers['x-amzn-requestid']\<close> throws.
\<close>

definition attribute_steps ::
  "jsval \<Rightarrow> config \<Rightarrow> jsval \<Rightarrow> jsval \<Rightarrow> (string \<times> (js_error + jsval)) list" where
  "attribute_steps response cfg rgn context =
     [(''aws.operation'',
         (case get_prop context ''commandName'' of
            Inl e \<Rightarrow> Inl e
          | Inr commandName \<Rightarrow> Inr (js_or commandName UNKNOWN))),
      (''aws.requestId'',
         (case get_prop response ''headers'' of
            Inl e \<Rightarrow> Inl e
          | Inr headers \<Rightarrow>
              (case get_prop headers ''x-amzn-requestid'' of
                 Inl e \<Rightarrow> Inl e
               | Inr requestid \<Rightarrow> Inr (js_or requestid UNKNOWN)))),
      (''aws.service'', Inr (js_or (serviceId cfg) UNKNOWN)),
      (''aws.region'', Inr (js_or rgn UNKNOWN))]"

text \<open>
  What one of these calls throws on a segment, if it throws: the throw of its argument, or
  the throw of \<^verbatim>\<open>addAttribute\<close>. What it leaves on the segment when it does not throw. The
  entry the \<^verbatim>\<open>catch\<close> block logs for a throw.
\<close>

definition step_throws :: "shim \<Rightarrow> segment \<Rightarrow> string \<times> (js_error + jsval) \<Rightarrow> js_error option" where
  "step_throws sh seg st =
     (case st of
        (k, Inl e) \<Rightarrow> Some e
      | (k, Inr v) \<Rightarrow> addAttribute sh seg k v)"

definition step_recorded :: "segment \<Rightarrow> string \<times> (js_error + jsval) \<Rightarrow> event list" where
  "step_recorded seg st =
     (case st of
        (k, Inl e) \<Rightarrow> []
      | (k, Inr v) \<Rightarrow> [AttributeAdded seg k v])"

definition failure_logged :: "js_error option \<Rightarrow> event list" where
  "failure_logged thrown =
     (case thrown of
        None \<Rightarrow> []
      | Some err \<Rightarrow> [Logged err ''Failed to add AWS attributes to segment''])"

text \<open>
  The lookup as the specification words it for the request id, a key compared without
  regard to case; the source has no such function.
\<close>

definition ascii_lower :: "char \<Rightarrow> char" where
  "ascii_lower c =
     (case map_of (zip ''ABCDEFGHIJKLMNOPQRSTUVWXYZ'' ''abcdefghijklmnopqrstuvwxyz'') c of
        Some l \<Rightarrow> l
      | None \<Rightarrow> c)"

definition spec_lookup_ignoring_case :: "(string \<times> jsval) list \<Rightarrow> string \<Rightarrow> jsval option" where
  "spec_lookup_ignoring_case hs key =
     map_of (map (\<lambda>(k, v). (map ascii_lower k, v)) hs) (map ascii_lower key)"

subsection \<open>Sample hosts and inputs\<close>

definition sample_shim :: shim where
  "sample_shim =
     \<lparr>getSegment = (\<lambda>h. if h = JStr ''req-1'' then Inr (Some 1) else Inr None),
      addAttribute = (\<lambda>s k v. None)\<rparr>"

definition refusing_shim :: shim where
  "refusing_shim =
     \<lparr>getSegment = (\<lambda>h. if h = JStr ''req-1'' then Inr (Some 1) else Inr None),
      addAttribute = (\<lambda>s k v. if k = ''aws.requestId'' then Some (Thrown (JStr ''refused'')) else None)\<rparr>"

definition sample_result :: "(string \<times> jsval) list \<Rightarrow> string \<Rightarrow> jsval" where
  "sample_result hs req =
     JObj [(''response'', JObj [(''statusCode'', JNum 200), (''headers'', JObj hs),
                                (''body'', JObj [(''req'', JStr req)])])]"

definition sample_context :: jsval where
  "sample_context = JObj [(''commandName'', JStr ''GetItem'')]"

definition sample_config :: config where
  "sample_config = \<lparr>serviceId = JStr ''DynamoDB'', region = Inr (JStr ''us-east-1'')\<rparr>"

definition failing_config :: config where
  "failing_config = \<lparr>serviceId = JStr ''DynamoDB'', region = Inl (Thrown (JStr ''no region''))\<rparr>"

definition sample_args :: jsval where
  "sample_args =
     JObj [(''input'', JObj [(''TableName'', JStr ''t'')]),
           (''request'', JObj [(''method'', JStr ''POST''),
              (''headers'', JObj [(''host'', JStr ''dynamodb.us-east-1.amazonaws.com''),
                                  (''x-new-relic-disable-dt'', JStr ''false'')])])]"

section \<open>Properties\<close>

subsection \<open>Shared facts\<close>

lemmas eff_defs = and_then_def try_catch_def lift_def ret_def logger_debug_def
  shim_getSegment_def segment_addAttribute_def

lemma addAwsAttributes_returns:
  "fst (addAwsAttributes sh result cfg rgn context) = Inr JUndefined"
  by (simp add: addAwsAttributes_def eff_defs split: sum.splits option.splits prod.splits)

lemma addAwsAttributes_recorded:
  assumes "get_prop result ''response'' = Inr response"
    and "get_prop response ''body'' = Inr body"
    and "get_prop body ''req'' = Inr req"
    and "getSegment sh req = Inr (Some seg)"
    and "get_prop context ''commandName'' = Inr commandName"
    and "get_prop response ''headers'' = Inr headers"
    and "get_prop headers ''x-amzn-requestid'' = Inr requestid"
    and "\<And>k v. addAttribute sh seg k v = None"
  shows "addAwsAttributes sh result cfg rgn context =
    (Inr JUndefined,
     [SegmentLookup req,
      AttributeAdded seg ''aws.operation'' (js_or commandName UNKNOWN),
      AttributeAdded seg ''aws.requestId'' (js_or requestid UNKNOWN),
      AttributeAdded seg ''aws.service'' (js_or (serviceId cfg) UNKNOWN),
      AttributeAdded seg ''aws.region'' (js_or rgn UNKNOWN)])"
  using assms by (simp add: addAwsAttributes_def eff_defs)

lemma addAwsAttributes_kinds:
  "list_all (\<lambda>e. \<not> is_next e \<and> \<not> is_region e) (snd (addAwsAttributes sh result cfg rgn context))"
  by (simp add: addAwsAttributes_def eff_defs split: sum.splits option.splits prod.splits)

lemma addAwsAttributes_keys:
  "prefix (added_keys (snd (addAwsAttributes sh result cfg rgn context)))
     [''aws.operation'', ''aws.requestId'', ''aws.service'', ''aws.region'']"
  by (simp add: addAwsAttributes_def added_keys_def eff_defs
      split: sum.splits option.splits prod.splits)

lemma addAwsAttributes_not_located:
  assumes "\<forall>seg. located_segment sh result \<noteq> Inr (Some seg)"
  shows "added (snd (addAwsAttributes sh result cfg rgn context)) = []"
proof (cases "get_prop result ''response''")
  case Inl
  then show ?thesis by (simp add: addAwsAttributes_def eff_defs)
next
  case response: (Inr response)
  show ?thesis
  proof (cases "get_prop response ''body''")
    case Inl
    with response show ?thesis by (simp add: addAwsAttributes_def eff_defs)
  next
    case body: (Inr body)
    show ?thesis
    proof (cases "get_prop body ''req''")
      case Inl
      with response body show ?thesis by (simp add: addAwsAttributes_def eff_defs)
    next
      case req: (Inr req)
      with response body have loc: "located_segment sh result = getSegment sh req"
        by (simp add: located_segment_def)
      show ?thesis
      proof (cases "getSegment sh req")
        case Inl
        with response body req show ?thesis by (simp add: addAwsAttributes_def eff_defs)
      next
        case (Inr found)
        with assms loc have "found = None" by (cases found) simp_all
        with Inr response body req show ?thesis
          by (simp add: addAwsAttributes_def eff_defs split: sum.splits)
      qed
    qed
  qed
qed

lemma addAwsAttributes_located_trace:
  assumes "get_prop result ''response'' = Inr response"
    and "get_prop response ''body'' = Inr body"
    and "get_prop body ''req'' = Inr req"
    and "getSegment sh req = Inr (Some seg)"
  shows "snd (addAwsAttributes sh result cfg rgn context) =
     SegmentLookup req #
       concat (map (step_recorded seg)
         (takeWhile (\<lambda>st. step_throws sh seg st = None) (attribute_steps response cfg rgn context)))
       @ failure_logged
           (case dropWhile (\<lambda>st. step_throws sh seg st = None) (attribute_steps response cfg rgn context) of
              [] \<Rightarrow> None
            | st # rest \<Rightarrow> step_throws sh seg st)"
proof -
  note defs = addAwsAttributes_def eff_defs attribute_steps_def step_throws_def
    step_recorded_def failure_logged_def
  show ?thesis
  proof (cases "get_prop context ''commandName''")
    case Inl
    with assms show ?thesis by (simp add: defs)
  next
    case cn: (Inr commandName)
    show ?thesis
    proof (cases "addAttribute sh seg ''aws.operation'' (js_or commandName UNKNOWN)")
      case Some
      with assms cn show ?thesis by (simp add: defs)
    next
      case a1: None
      show ?thesis
      proof (cases "get_prop response ''headers''")
        case Inl
        with assms cn a1 show ?thesis by (simp add: defs)
      next
        case hs: (Inr headers)
        show ?thesis
        proof (cases "get_prop headers ''x-amzn-requestid''")
          case Inl
          with assms cn a1 hs show ?thesis by (simp add: defs)
        next
          case rid: (Inr requestid)
          show ?thesis
          proof (cases "addAttribute sh seg ''aws.requestId'' (js_or requestid UNKNOWN)")
            case Some
            with assms cn a1 hs rid show ?thesis by (simp add: defs)
          next
            case a2: None
            show ?thesis
            proof (cases "addAttribute sh seg ''aws.service'' (js_or (serviceId cfg) UNKNOWN)")
              case Some
              with assms cn a1 hs rid a2 show ?thesis by (simp add: defs)
            next
              case a3: None
              with assms cn a1 hs rid a2 show ?thesis
                by (cases "addAttribute sh seg ''aws.region'' (js_or rgn UNKNOWN)")
                  (simp_all add: defs)
            qed
          qed
        qed
      qed
    qed
  qed
qed

lemma addAwsAttributes_not_located_trace:
  assumes "\<forall>seg. located_segment sh result \<noteq> Inr (Some seg)"
  shows "\<exists>err. snd (addAwsAttributes sh result cfg rgn context)
             = [Logged err ''Failed to add AWS attributes to segment'']
          \<or> (\<exists>req. snd (addAwsAttributes sh result cfg rgn context)
             = [SegmentLookup req, Logged err ''Failed to add AWS attributes to segment''])"
proof (cases "get_prop result ''response''")
  case Inl
  then show ?thesis by (simp add: addAwsAttributes_def eff_defs)
next
  case response: (Inr response)
  show ?thesis
  proof (cases "get_prop response ''body''")
    case Inl
    with response show ?thesis by (simp add: addAwsAttributes_def eff_defs)
  next
    case body: (Inr body)
    show ?thesis
    proof (cases "get_prop body ''req''")
      case Inl
      with response body show ?thesis by (simp add: addAwsAttributes_def eff_defs)
    next
      case req: (Inr req)
      with response body have loc: "located_segment sh result = getSegment sh req"
        by (simp add: located_segment_def)
      show ?thesis
      proof (cases "getSegment sh req")
        case Inl
        with response body req show ?thesis by (simp add: addAwsAttributes_def eff_defs)
      next
        case (Inr found)
        with assms loc have "found = None" by (cases found) simp_all
        with Inr response body req show ?thesis
          by (simp add: addAwsAttributes_def eff_defs split: sum.splits)
      qed
    qed
  qed
qed

lemma addAwsAttributes_region_value:
  "list_all (\<lambda>(s, k, v). k \<noteq> ''aws.region'' \<or> v = js_or rgn UNKNOWN)
     (added (snd (addAwsAttributes sh result cfg rgn context)))"
  by (simp add: addAwsAttributes_def eff_defs split: sum.splits option.splits prod.splits)

lemma attrMiddleware_unfold:
  "attrMiddleware sh cfg next context args =
     (next args,
      snd (resolve_region cfg) @ NextInvoked args #
        (case next args of
           Inl e \<Rightarrow> []
         | Inr result \<Rightarrow>
             snd (addAwsAttributes sh result cfg
                    (case region cfg of Inl e \<Rightarrow> JUndefined | Inr r \<Rightarrow> r) context)))"
proof (cases "next args")
  case (Inl e)
  then show ?thesis
    by (cases "region cfg")
      (simp_all add: attrMiddleware_def resolve_region_def call_next_def eff_defs)
next
  case (Inr result)
  define rgn where "rgn = (case region cfg of Inl e \<Rightarrow> JUndefined | Inr r \<Rightarrow> r)"
  obtain evs where a: "addAwsAttributes sh result cfg rgn context = (Inr JUndefined, evs)"
    using addAwsAttributes_returns [of sh result cfg rgn "context"]
    by (cases "addAwsAttributes sh result cfg rgn context") simp
  with Inr show ?thesis
    by (cases "region cfg")
      (simp_all add: rgn_def attrMiddleware_def resolve_region_def call_next_def and_then_def
        try_catch_def ret_def logger_debug_def)
qed

lemma request_headers_shape:
  assumes "request_headers args = Inr (JObj hs)"
  obtains ps rq where "args = JObj ps" and "map_of ps ''request'' = Some (JObj rq)"
    and "map_of rq ''headers'' = Some (JObj hs)"
proof -
  from assms obtain request where r: "get_prop args ''request'' = Inr request"
    and h: "get_prop request ''headers'' = Inr (JObj hs)"
    by (auto simp: request_headers_def split: sum.splits)
  from h obtain rq where rq: "request = JObj rq" and hs: "map_of rq ''headers'' = Some (JObj hs)"
    by (cases request) (auto split: option.splits)
  from r rq obtain ps where "args = JObj ps" and "map_of ps ''request'' = Some (JObj rq)"
    by (cases args) (auto split: option.splits)
  with hs that show thesis by blast
qed

lemma headerMiddleware_wellformed:
  assumes "request_headers args = Inr (JObj hs)"
  shows "\<exists>args'. headerMiddleware sh next args = ((next args', [NextInvoked args']), args')
     \<and> request_headers args' = Inr (JObj (AList.update ''x-new-relic-disable-dt'' (JStr ''true'') hs))"
proof -
  from assms obtain ps rq where "args = JObj ps" and "map_of ps ''request'' = Some (JObj rq)"
    and "map_of rq ''headers'' = Some (JObj hs)"
    by (rule request_headers_shape)
  then show ?thesis
    by (simp add: headerMiddleware_def set_disable_dt_def call_next_def request_headers_def
        DISABLE_DT_def update_conv')
qed

subsection \<open>The four attributes\<close>

text \<open>
  C1. Where the response headers hold \<^verbatim>\<open>x-amzn-requestid\<close> with the value \<^verbatim>\<open>abc-123\<close>, the
  configuration has the \<^verbatim>\<open>serviceId\<close> \<^verbatim>\<open>DynamoDB\<close>, the region is \<^verbatim>\<open>us-east-1\<close> and the
  command is \<^verbatim>\<open>GetItem\<close>, \<^verbatim>\<open>addAwsAttributes\<close> looks the segment up once and records on it
  the four attributes \<^verbatim>\<open>aws.operation\<close>, \<^verbatim>\<open>aws.requestId\<close>, \<^verbatim>\<open>aws.service\<close> and \<^verbatim>\<open>aws.region\<close>
  with these values, in this order, and nothing else. The segment is located, and it
  accepts what it is given.
\<close>

theorem addAwsAttributes_example:
  assumes "get_prop result ''response'' = Inr response"
    and "get_prop response ''headers'' = Inr (JObj hs)"
    and "map_of hs ''x-amzn-requestid'' = Some (JStr ''abc-123'')"
    and "get_prop response ''body'' = Inr body"
    and "get_prop body ''req'' = Inr req"
    and "getSegment sh req = Inr (Some seg)"
    and "\<And>k v. addAttribute sh seg k v = None"
    and "serviceId cfg = JStr ''DynamoDB''"
    and "get_prop context ''commandName'' = Inr (JStr ''GetItem'')"
  shows "addAwsAttributes sh result cfg (JStr ''us-east-1'') context =
    (Inr JUndefined,
     [SegmentLookup req,
      AttributeAdded seg ''aws.operation'' (JStr ''GetItem''),
      AttributeAdded seg ''aws.requestId'' (JStr ''abc-123''),
      AttributeAdded seg ''aws.service'' (JStr ''DynamoDB''),
      AttributeAdded seg ''aws.region'' (JStr ''us-east-1'')])"
proof -
  from assms(2,3) have "get_prop (JObj hs) ''x-amzn-requestid'' = Inr (JStr ''abc-123'')"
    by simp
  from addAwsAttributes_recorded [OF assms(1) assms(4) assms(5) assms(6) assms(9) assms(2) this assms(7)]
  show ?thesis
    by (simp add: js_or_def UNKNOWN_def assms(8))
qed

theorem addAwsAttributes_example_witness:
  "addAwsAttributes sample_shim
     (sample_result [(''x-amzn-requestid'', JStr ''abc-123'')] ''req-1'')
     sample_config (JStr ''us-east-1'') sample_context =
   (Inr JUndefined,
    [SegmentLookup (JStr ''req-1''),
     AttributeAdded 1 ''aws.operation'' (JStr ''GetItem''),
     AttributeAdded 1 ''aws.requestId'' (JStr ''abc-123''),
     AttributeAdded 1 ''aws.service'' (JStr ''DynamoDB''),
     AttributeAdded 1 ''aws.region'' (JStr ''us-east-1'')])"
  by (rule addAwsAttributes_example
      [where response = "JObj [(''statusCode'', JNum 200),
                               (''headers'', JObj [(''x-amzn-requestid'', JStr ''abc-123'')]),
                               (''body'', JObj [(''req'', JStr ''req-1'')])]"
         and hs = "[(''x-amzn-requestid'', JStr ''abc-123'')]"
         and body = "JObj [(''req'', JStr ''req-1'')]"])
    (simp_all add: sample_shim_def sample_result_def sample_config_def sample_context_def)

subsection \<open>The request id\<close>

text \<open>
  The request id is read under the key \<^verbatim>\<open>x-amzn-requestid\<close> as it is written. A response
  that holds the id under \<^verbatim>\<open>X-Amzn-RequestId\<close>, which a lookup without regard to case
  finds, has \<^verbatim>\<open>aws.requestId\<close> recorded as \<^verbatim>\<open>Unknown\<close>.
\<close>

theorem requestId_lookup_is_case_sensitive:
  "spec_lookup_ignoring_case [(''X-Amzn-RequestId'', JStr ''abc-123'')] ''x-amzn-requestid''
     = Some (JStr ''abc-123'')
   \<and> addAwsAttributes sample_shim
       (sample_result [(''X-Amzn-RequestId'', JStr ''abc-123'')] ''req-1'')
       sample_config (JStr ''us-east-1'') sample_context =
     (Inr JUndefined,
      [SegmentLookup (JStr ''req-1''),
       AttributeAdded 1 ''aws.operation'' (JStr ''GetItem''),
       AttributeAdded 1 ''aws.requestId'' (JStr ''Unknown''),
       AttributeAdded 1 ''aws.service'' (JStr ''DynamoDB''),
       AttributeAdded 1 ''aws.region'' (JStr ''us-east-1'')])"
  by (simp add: spec_lookup_ignoring_case_def ascii_lower_def addAwsAttributes_def eff_defs
      sample_shim_def sample_result_def sample_config_def sample_context_def js_or_def UNKNOWN_def)

text \<open>
  C2, as the code has it. The attribute \<^verbatim>\<open>aws.requestId\<close> is recorded once, from the entry
  of the response headers whose key is exactly \<^verbatim>\<open>x-amzn-requestid\<close>: its value when that
  value is truthy, and \<^verbatim>\<open>Unknown\<close> when it is falsy or when there is no such entry,
  whatever the headers hold under other spellings of the key.
\<close>

theorem requestId_from_exact_key:
  assumes "get_prop result ''response'' = Inr response"
    and "get_prop response ''headers'' = Inr (JObj hs)"
    and "get_prop response ''body'' = Inr body"
    and "get_prop body ''req'' = Inr req"
    and "getSegment sh req = Inr (Some seg)"
    and "\<And>k v. addAttribute sh seg k v = None"
    and "get_prop context ''commandName'' = Inr commandName"
  shows "recorded_for seg ''aws.requestId'' (snd (addAwsAttributes sh result cfg rgn context)) =
    [case map_of hs ''x-amzn-requestid'' of
       None \<Rightarrow> JStr ''Unknown''
     | Some v \<Rightarrow> if truthy v then v else JStr ''Unknown'']"
proof -
  have "get_prop (JObj hs) ''x-amzn-requestid''
      = Inr (case map_of hs ''x-amzn-requestid'' of None \<Rightarrow> JUndefined | Some v \<Rightarrow> v)"
    by simp
  from addAwsAttributes_recorded [OF assms(1) assms(3) assms(4) assms(5) assms(7) assms(2) this assms(6)]
  show ?thesis
    by (simp add: recorded_for_def js_or_def UNKNOWN_def split: option.splits)
qed

theorem requestId_from_exact_key_witness:
  "recorded_for 1 ''aws.requestId''
     (snd (addAwsAttributes sample_shim
        (sample_result [(''X-Amzn-RequestId'', JStr ''other''), (''x-amzn-requestid'', JStr ''abc-123'')] ''req-1'')
        sample_config (JStr ''us-east-1'') sample_context))
   = [JStr ''abc-123'']"
proof -
  have "recorded_for 1 ''aws.requestId''
     (snd (addAwsAttributes sample_shim
        (sample_result [(''X-Amzn-RequestId'', JStr ''other''), (''x-amzn-requestid'', JStr ''abc-123'')] ''req-1'')
        sample_config (JStr ''us-east-1'') sample_context))
   = [case map_of [(''X-Amzn-RequestId'', JStr ''other''), (''x-amzn-requestid'', JStr ''abc-123'')]
             ''x-amzn-requestid'' of
        None \<Rightarrow> JStr ''Unknown''
      | Some v \<Rightarrow> if truthy v then v else JStr ''Unknown'']"
    by (rule requestId_from_exact_key
        [where response = "JObj [(''statusCode'', JNum 200),
             (''headers'', JObj [(''X-Amzn-RequestId'', JStr ''other''), (''x-amzn-requestid'', JStr ''abc-123'')]),
             (''body'', JObj [(''req'', JStr ''req-1'')])]"
           and body = "JObj [(''req'', JStr ''req-1'')]"
           and req = "JStr ''req-1''" and commandName = "JStr ''GetItem''"])
      (simp_all add: sample_shim_def sample_result_def sample_context_def)
  then show ?thesis by simp
qed

text \<open>
  C8. Where the response headers have no entry \<^verbatim>\<open>x-amzn-requestid\<close>, the region is
  \<^verbatim>\<open>undefined\<close> and the configuration has no \<^verbatim>\<open>serviceId\<close>, the segment receives
  \<^verbatim>\<open>aws.requestId\<close>, \<^verbatim>\<open>aws.service\<close> and \<^verbatim>\<open>aws.region\<close> with the value \<^verbatim>\<open>Unknown\<close>, each of them;
  \<^verbatim>\<open>aws.operation\<close> is the command name, or \<^verbatim>\<open>Unknown\<close> in its place.
\<close>

theorem addAwsAttributes_absent_values:
  assumes "get_prop result ''response'' = Inr response"
    and "get_prop response ''headers'' = Inr (JObj hs)"
    and "map_of hs ''x-amzn-requestid'' = None"
    and "get_prop response ''body'' = Inr body"
    and "get_prop body ''req'' = Inr req"
    and "getSegment sh req = Inr (Some seg)"
    and "\<And>k v. addAttribute sh seg k v = None"
    and "serviceId cfg = JUndefined"
    and "get_prop context ''commandName'' = Inr commandName"
  shows "addAwsAttributes sh result cfg JUndefined context =
    (Inr JUndefined,
     [SegmentLookup req,
      AttributeAdded seg ''aws.operation'' (js_or commandName UNKNOWN),
      AttributeAdded seg ''aws.requestId'' (JStr ''Unknown''),
      AttributeAdded seg ''aws.service'' (JStr ''Unknown''),
      AttributeAdded seg ''aws.region'' (JStr ''Unknown'')])"
proof -
  from assms(2,3) have "get_prop (JObj hs) ''x-amzn-requestid'' = Inr JUndefined"
    by simp
  from addAwsAttributes_recorded [OF assms(1) assms(4) assms(5) assms(6) assms(9) assms(2) this assms(7)]
  show ?thesis
    by (simp add: js_or_def UNKNOWN_def assms(8))
qed

theorem addAwsAttributes_absent_values_witness:
  "addAwsAttributes sample_shim (sample_result [] ''req-1'')
     \<lparr>serviceId = JUndefined, region = Inr JUndefined\<rparr> JUndefined sample_context =
   (Inr JUndefined,
    [SegmentLookup (JStr ''req-1''),
     AttributeAdded 1 ''aws.operation'' (JStr ''GetItem''),
     AttributeAdded 1 ''aws.requestId'' (JStr ''Unknown''),
     AttributeAdded 1 ''aws.service'' (JStr ''Unknown''),
     AttributeAdded 1 ''aws.region'' (JStr ''Unknown'')])"
proof -
  have "addAwsAttributes sample_shim (sample_result [] ''req-1'')
     \<lparr>serviceId = JUndefined, region = Inr JUndefined\<rparr> JUndefined sample_context =
   (Inr JUndefined,
    [SegmentLookup (JStr ''req-1''),
     AttributeAdded 1 ''aws.operation'' (js_or (JStr ''GetItem'') UNKNOWN),
     AttributeAdded 1 ''aws.requestId'' (JStr ''Unknown''),
     AttributeAdded 1 ''aws.service'' (JStr ''Unknown''),
     AttributeAdded 1 ''aws.region'' (JStr ''Unknown'')])"
    by (rule addAwsAttributes_absent_values
        [where response = "JObj [(''statusCode'', JNum 200), (''headers'', JObj []),
                                 (''body'', JObj [(''req'', JStr ''req-1'')])]"
           and hs = "[]" and body = "JObj [(''req'', JStr ''req-1'')]"])
      (simp_all add: sample_shim_def sample_result_def sample_context_def)
  then show ?thesis by (simp add: js_or_def)
qed

text \<open>
  C9. The fallback is taken on every falsy value, present or not: each of the four
  attributes is the underlying value when that is truthy and \<^verbatim>\<open>Unknown\<close> otherwise, so an
  empty string, \<^verbatim>\<open>null\<close>, \<^verbatim>\<open>false\<close> or \<^verbatim>\<open>0\<close> in the command name, the request-id header, the
  \<^verbatim>\<open>serviceId\<close> or the region is recorded as \<^verbatim>\<open>Unknown\<close>.
\<close>

theorem addAwsAttributes_falsy_values:
  assumes "get_prop result ''response'' = Inr response"
    and "get_prop response ''headers'' = Inr headers"
    and "get_prop headers ''x-amzn-requestid'' = Inr requestid"
    and "get_prop response ''body'' = Inr body"
    and "get_prop body ''req'' = Inr req"
    and "getSegment sh req = Inr (Some seg)"
    and "\<And>k v. addAttribute sh seg k v = None"
    and "get_prop context ''commandName'' = Inr commandName"
  shows "addAwsAttributes sh result cfg rgn context =
    (Inr JUndefined,
     [SegmentLookup req,
      AttributeAdded seg ''aws.operation'' (if truthy commandName then commandName else JStr ''Unknown''),
      AttributeAdded seg ''aws.requestId'' (if truthy requestid then requestid else JStr ''Unknown''),
      AttributeAdded seg ''aws.service'' (if truthy (serviceId cfg) then serviceId cfg else JStr ''Unknown''),
      AttributeAdded seg ''aws.region'' (if truthy rgn then rgn else JStr ''Unknown'')])"
  using addAwsAttributes_recorded [OF assms(1) assms(4) assms(5) assms(6) assms(8) assms(2) assms(3) assms(7)]
  by (simp add: js_or_def UNKNOWN_def)

theorem addAwsAttributes_falsy_values_witness:
  "addAwsAttributes sample_shim (sample_result [(''x-amzn-requestid'', JStr '''')] ''req-1'')
     \<lparr>serviceId = JStr '''', region = Inr (JStr '''')\<rparr> (JStr '''')
     (JObj [(''commandName'', JStr '''')]) =
   (Inr JUndefined,
    [SegmentLookup (JStr ''req-1''),
     AttributeAdded 1 ''aws.operation'' (JStr ''Unknown''),
     AttributeAdded 1 ''aws.requestId'' (JStr ''Unknown''),
     AttributeAdded 1 ''aws.service'' (JStr ''Unknown''),
     AttributeAdded 1 ''aws.region'' (JStr ''Unknown'')])"
proof -
  have "addAwsAttributes sample_shim (sample_result [(''x-amzn-requestid'', JStr '''')] ''req-1'')
     \<lparr>serviceId = JStr '''', region = Inr (JStr '''')\<rparr> (JStr '''')
     (JObj [(''commandName'', JStr '''')]) =
   (Inr JUndefined,
    [SegmentLookup (JStr ''req-1''),
     AttributeAdded 1 ''aws.operation'' (if truthy (JStr '''') then JStr '''' else JStr ''Unknown''),
     AttributeAdded 1 ''aws.requestId'' (if truthy (JStr '''') then JStr '''' else JStr ''Unknown''),
     AttributeAdded 1 ''aws.service''
       (if truthy (serviceId \<lparr>serviceId = JStr '''', region = Inr (JStr '''')\<rparr>)
        then serviceId \<lparr>serviceId = JStr '''', region = Inr (JStr '''')\<rparr> else JStr ''Unknown''),
     AttributeAdded 1 ''aws.region'' (if truthy (JStr '''') then JStr '''' else JStr ''Unknown'')])"
    by (rule addAwsAttributes_falsy_values
        [where response = "JObj [(''statusCode'', JNum 200),
                                 (''headers'', JObj [(''x-amzn-requestid'', JStr '''')]),
                                 (''body'', JObj [(''req'', JStr ''req-1'')])]"
           and headers = "JObj [(''x-amzn-requestid'', JStr '''')]"
           and body = "JObj [(''req'', JStr ''req-1'')]"])
      (simp_all add: sample_shim_def sample_result_def)
  then show ?thesis by simp
qed

subsection \<open>Failures while recording\<close>

text \<open>
  Recording is not all or nothing. On a segment that throws when it is given
  \<^verbatim>\<open>aws.requestId\<close>, the throw is caught and logged and nothing escapes, and
  \<^verbatim>\<open>aws.operation\<close>, recorded before the throw, is on the segment.
\<close>

theorem addAwsAttributes_not_atomic:
  "addAttribute refusing_shim 1 ''aws.requestId'' (JStr ''abc-123'') = Some (Thrown (JStr ''refused''))
   \<and> addAwsAttributes refusing_shim
       (sample_result [(''x-amzn-requestid'', JStr ''abc-123'')] ''req-1'')
       sample_config (JStr ''us-east-1'') sample_context =
     (Inr JUndefined,
      [SegmentLookup (JStr ''req-1''),
       AttributeAdded 1 ''aws.operation'' (JStr ''GetItem''),
       Logged (Thrown (JStr ''refused'')) ''Failed to add AWS attributes to segment''])
   \<and> added (snd (addAwsAttributes refusing_shim
         (sample_result [(''x-amzn-requestid'', JStr ''abc-123'')] ''req-1'')
         sample_config (JStr ''us-east-1'') sample_context)) =
     [(1, ''aws.operation'', JStr ''GetItem'')]"
  by (simp add: addAwsAttributes_def eff_defs
      refusing_shim_def sample_result_def sample_config_def sample_context_def js_or_def UNKNOWN_def)

text \<open>
  C3, as the code has it. No exception escapes \<^verbatim>\<open>addAwsAttributes\<close>, which returns
  \<^verbatim>\<open>undefined\<close> on every input. When the segment lookup throws or returns nothing, or the
  path to the transport handle cannot be read, no attribute is recorded and the failure is
  logged, once. When the segment is located, the attributes of the steps before the first
  step that throws are recorded on it, that throw is logged, once, and the steps after it
  are skipped; when no step throws all four are recorded and nothing is logged. So the
  keys recorded are an initial part of \<^verbatim>\<open>aws.operation\<close>, \<^verbatim>\<open>aws.requestId\<close>, \<^verbatim>\<open>aws.service\<close>,
  \<^verbatim>\<open>aws.region\<close>, and not always the empty one.
\<close>

theorem addAwsAttributes_contains_failures:
  "fst (addAwsAttributes sh result cfg rgn context) = Inr JUndefined
   \<and> prefix (added_keys (snd (addAwsAttributes sh result cfg rgn context)))
        [''aws.operation'', ''aws.requestId'', ''aws.service'', ''aws.region'']
   \<and> ((\<forall>seg. located_segment sh result \<noteq> Inr (Some seg)) \<longrightarrow>
        added (snd (addAwsAttributes sh result cfg rgn context)) = []
        \<and> (\<exists>err. snd (addAwsAttributes sh result cfg rgn context)
               = [Logged err ''Failed to add AWS attributes to segment'']
             \<or> (\<exists>req. snd (addAwsAttributes sh result cfg rgn context)
               = [SegmentLookup req, Logged err ''Failed to add AWS attributes to segment''])))
   \<and> (get_prop result ''response'' = Inr response \<longrightarrow>
        get_prop response ''body'' = Inr body \<longrightarrow>
        get_prop body ''req'' = Inr req \<longrightarrow>
        getSegment sh req = Inr (Some seg) \<longrightarrow>
        snd (addAwsAttributes sh result cfg rgn context) =
          SegmentLookup req #
            concat (map (step_recorded seg)
              (takeWhile (\<lambda>st. step_throws sh seg st = None)
                 (attribute_steps response cfg rgn context)))
            @ failure_logged
                (case dropWhile (\<lambda>st. step_throws sh seg st = None)
                        (attribute_steps response cfg rgn context) of
                   [] \<Rightarrow> None
                 | st # rest \<Rightarrow> step_throws sh seg st))"
  using addAwsAttributes_returns [of sh result cfg rgn "context"]
    addAwsAttributes_keys [of sh result cfg rgn "context"]
    addAwsAttributes_not_located [of sh result cfg rgn "context"]
    addAwsAttributes_not_located_trace [of sh result cfg rgn "context"]
    addAwsAttributes_located_trace [of result response body req sh seg cfg rgn "context"]
  by blast

theorem addAwsAttributes_contains_failures_witness:
  "fst (addAwsAttributes sample_shim (sample_result [] ''req-2'') sample_config JUndefined sample_context)
     = Inr JUndefined
   \<and> located_segment sample_shim (sample_result [] ''req-2'') = Inr None
   \<and> added (snd (addAwsAttributes sample_shim (sample_result [] ''req-2'') sample_config JUndefined
        sample_context)) = []
   \<and> (\<exists>err. snd (addAwsAttributes sample_shim (sample_result [] ''req-2'') sample_config JUndefined
                 sample_context)
               = [Logged err ''Failed to add AWS attributes to segment'']
             \<or> (\<exists>req. snd (addAwsAttributes sample_shim (sample_result [] ''req-2'') sample_config
                 JUndefined sample_context)
               = [SegmentLookup req, Logged err ''Failed to add AWS attributes to segment'']))
   \<and> snd (addAwsAttributes refusing_shim
         (sample_result [(''x-amzn-requestid'', JStr ''abc-123'')] ''req-1'')
         sample_config (JStr ''us-east-1'') sample_context) =
       [SegmentLookup (JStr ''req-1''),
        AttributeAdded 1 ''aws.operation'' (JStr ''GetItem''),
        Logged (Thrown (JStr ''refused'')) ''Failed to add AWS attributes to segment'']
   \<and> snd (addAwsAttributes sample_shim
         (sample_result [(''x-amzn-requestid'', JStr ''abc-123'')] ''req-1'')
         sample_config (JStr ''us-east-1'') sample_context) =
       [SegmentLookup (JStr ''req-1''),
        AttributeAdded 1 ''aws.operation'' (JStr ''GetItem''),
        AttributeAdded 1 ''aws.requestId'' (JStr ''abc-123''),
        AttributeAdded 1 ''aws.service'' (JStr ''DynamoDB''),
        AttributeAdded 1 ''aws.region'' (JStr ''us-east-1'')]"
proof -
  have loc: "located_segment sample_shim (sample_result [] ''req-2'') = Inr None"
    by (simp add: located_segment_def sample_shim_def sample_result_def)
  note nowhere = addAwsAttributes_contains_failures
      [of sample_shim "sample_result [] ''req-2''" sample_config JUndefined sample_context]
  have refused: "snd (addAwsAttributes refusing_shim
         (sample_result [(''x-amzn-requestid'', JStr ''abc-123'')] ''req-1'')
         sample_config (JStr ''us-east-1'') sample_context) =
       [SegmentLookup (JStr ''req-1''),
        AttributeAdded 1 ''aws.operation'' (JStr ''GetItem''),
        Logged (Thrown (JStr ''refused'')) ''Failed to add AWS attributes to segment'']"
    using addAwsAttributes_contains_failures
      [of refusing_shim "sample_result [(''x-amzn-requestid'', JStr ''abc-123'')] ''req-1''"
          sample_config "JStr ''us-east-1''" sample_context
          "JObj [(''statusCode'', JNum 200),
                 (''headers'', JObj [(''x-amzn-requestid'', JStr ''abc-123'')]),
                 (''body'', JObj [(''req'', JStr ''req-1'')])]"
          "JObj [(''req'', JStr ''req-1'')]" "JStr ''req-1''" 1]
    by (simp add: refusing_shim_def sample_result_def sample_config_def sample_context_def
        attribute_steps_def step_throws_def step_recorded_def failure_logged_def
        js_or_def UNKNOWN_def)
  have accepted: "snd (addAwsAttributes sample_shim
         (sample_result [(''x-amzn-requestid'', JStr ''abc-123'')] ''req-1'')
         sample_config (JStr ''us-east-1'') sample_context) =
       [SegmentLookup (JStr ''req-1''),
        AttributeAdded 1 ''aws.operation'' (JStr ''GetItem''),
        AttributeAdded 1 ''aws.requestId'' (JStr ''abc-123''),
        AttributeAdded 1 ''aws.service'' (JStr ''DynamoDB''),
        AttributeAdded 1 ''aws.region'' (JStr ''us-east-1'')]"
    using addAwsAttributes_contains_failures
      [of sample_shim "sample_result [(''x-amzn-requestid'', JStr ''abc-123'')] ''req-1''"
          sample_config "JStr ''us-east-1''" sample_context
          "JObj [(''statusCode'', JNum 200),
                 (''headers'', JObj [(''x-amzn-requestid'', JStr ''abc-123'')]),
                 (''body'', JObj [(''req'', JStr ''req-1'')])]"
          "JObj [(''req'', JStr ''req-1'')]" "JStr ''req-1''" 1]
    by (simp add: sample_shim_def sample_result_def sample_config_def sample_context_def
        attribute_steps_def step_throws_def step_recorded_def failure_logged_def
        js_or_def UNKNOWN_def)
  from loc nowhere refused accepted show ?thesis by simp
qed

subsection \<open>The attribute middleware\<close>

text \<open>
  C4. Whether the region provider returns or throws, the calls of the attribute middleware
  are: the region resolution first, then log entries only, then the next handler, once, on
  the arguments the middleware was given, then the calls of the recording step, none of
  which is a call of the next handler or of the region provider. When the next handler
  throws there is no recording. The outcome of the middleware is the outcome of the next
  handler, unchanged.
\<close>

theorem attrMiddleware_next_once:
  "\<exists>logs post.
     attrMiddleware sh cfg next context args =
       (next args, RegionResolved (region cfg) # logs @ NextInvoked args # post)
     \<and> list_all is_log logs
     \<and> list_all (\<lambda>e. \<not> is_next e \<and> \<not> is_region e) post
     \<and> (case next args of Inl e \<Rightarrow> post = [] | Inr result \<Rightarrow> True)"
proof -
  have pre: "\<exists>logs. snd (resolve_region cfg) = RegionResolved (region cfg) # logs \<and> list_all is_log logs"
    by (cases "region cfg") (simp_all add: resolve_region_def eff_defs)
  then obtain logs where logs: "snd (resolve_region cfg) = RegionResolved (region cfg) # logs"
    and ll: "list_all is_log logs" by blast
  define post where "post = (case next args of
           Inl e \<Rightarrow> []
         | Inr result \<Rightarrow>
             snd (addAwsAttributes sh result cfg
                    (case region cfg of Inl e \<Rightarrow> JUndefined | Inr r \<Rightarrow> r) context))"
  have "attrMiddleware sh cfg next context args =
       (next args, RegionResolved (region cfg) # logs @ NextInvoked args # post)"
    using attrMiddleware_unfold [of sh cfg "next" "context" args] logs by (simp add: post_def)
  moreover have "list_all (\<lambda>e. \<not> is_next e \<and> \<not> is_region e) post"
    unfolding post_def by (cases "next args") (simp_all add: addAwsAttributes_kinds)
  moreover have "(case next args of Inl e \<Rightarrow> post = [] | Inr result \<Rightarrow> True)"
    unfolding post_def by (cases "next args") simp_all
  ultimately show ?thesis using ll by blast
qed

theorem attrMiddleware_next_once_witness:
  "(\<exists>logs post.
     attrMiddleware sample_shim failing_config (\<lambda>a. Inr (sample_result [] ''req-1''))
         sample_context sample_args =
       (Inr (sample_result [] ''req-1''),
        RegionResolved (Inl (Thrown (JStr ''no region''))) # logs @ NextInvoked sample_args # post)
     \<and> list_all is_log logs
     \<and> list_all (\<lambda>e. \<not> is_next e \<and> \<not> is_region e) post)
   \<and> (\<exists>logs.
     attrMiddleware sample_shim sample_config (\<lambda>a. Inl TypeError) sample_context sample_args =
       (Inl TypeError, RegionResolved (Inr (JStr ''us-east-1'')) # logs @ [NextInvoked sample_args])
     \<and> list_all is_log logs)"
  using attrMiddleware_next_once
      [of sample_shim failing_config "\<lambda>a. Inr (sample_result [] ''req-1'')" sample_context sample_args]
    attrMiddleware_next_once
      [of sample_shim sample_config "\<lambda>a. Inl TypeError" sample_context sample_args]
  by (simp add: failing_config_def sample_config_def)

text \<open>
  C5. When the region provider throws, the throw is logged and does not leave the
  middleware, whose outcome is the outcome of the next handler; the next handler is
  invoked; the recording step runs on its result with the region \<^verbatim>\<open>undefined\<close>; and every
  \<^verbatim>\<open>aws.region\<close> the segment receives is \<^verbatim>\<open>Unknown\<close>.
\<close>

theorem attrMiddleware_region_throws:
  assumes "region cfg = Inl err"
  shows "fst (attrMiddleware sh cfg next context args) = next args
   \<and> snd (attrMiddleware sh cfg next context args) =
       RegionResolved (Inl err) # Logged err ''Failed to get the AWS region'' # NextInvoked args #
         (case next args of
            Inl e \<Rightarrow> []
          | Inr result \<Rightarrow> snd (addAwsAttributes sh result cfg JUndefined context))
   \<and> list_all (\<lambda>(s, k, v). k \<noteq> ''aws.region'' \<or> v = JStr ''Unknown'')
        (added (snd (attrMiddleware sh cfg next context args)))"
proof -
  have ev: "snd (attrMiddleware sh cfg next context args) =
       RegionResolved (Inl err) # Logged err ''Failed to get the AWS region'' # NextInvoked args #
         (case next args of
            Inl e \<Rightarrow> []
          | Inr result \<Rightarrow> snd (addAwsAttributes sh result cfg JUndefined context))"
    using assms
    by (cases "next args") (simp_all add: attrMiddleware_unfold resolve_region_def eff_defs)
  have "list_all (\<lambda>(s, k, v). k \<noteq> ''aws.region'' \<or> v = JStr ''Unknown'')
        (added (snd (attrMiddleware sh cfg next context args)))"
  proof (cases "next args")
    case Inl
    with ev show ?thesis by simp
  next
    case (Inr result)
    with ev addAwsAttributes_region_value [of JUndefined sh result cfg "context"]
    show ?thesis by (simp add: js_or_def UNKNOWN_def)
  qed
  with ev show ?thesis by (simp add: attrMiddleware_unfold)
qed

theorem attrMiddleware_region_throws_witness:
  "attrMiddleware sample_shim failing_config (\<lambda>a. Inr (sample_result [] ''req-1''))
       sample_context sample_args =
     (Inr (sample_result [] ''req-1''),
      [RegionResolved (Inl (Thrown (JStr ''no region''))),
       Logged (Thrown (JStr ''no region'')) ''Failed to get the AWS region'',
       NextInvoked sample_args,
       SegmentLookup (JStr ''req-1''),
       AttributeAdded 1 ''aws.operation'' (JStr ''GetItem''),
       AttributeAdded 1 ''aws.requestId'' (JStr ''Unknown''),
       AttributeAdded 1 ''aws.service'' (JStr ''DynamoDB''),
       AttributeAdded 1 ''aws.region'' (JStr ''Unknown'')])"
proof -
  have r: "region failing_config = Inl (Thrown (JStr ''no region''))"
    by (simp add: failing_config_def)
  have a: "snd (addAwsAttributes sample_shim (sample_result [] ''req-1'') failing_config JUndefined
      sample_context) =
      [SegmentLookup (JStr ''req-1''),
       AttributeAdded 1 ''aws.operation'' (JStr ''GetItem''),
       AttributeAdded 1 ''aws.requestId'' (JStr ''Unknown''),
       AttributeAdded 1 ''aws.service'' (JStr ''DynamoDB''),
       AttributeAdded 1 ''aws.region'' (JStr ''Unknown'')]"
    by (simp add: addAwsAttributes_def eff_defs sample_shim_def sample_result_def
        failing_config_def sample_context_def js_or_def UNKNOWN_def)
  from attrMiddleware_region_throws [OF r, of sample_shim "\<lambda>a. Inr (sample_result [] ''req-1'')"
      sample_context sample_args] a
  show ?thesis by (simp add: prod_eq_iff)
qed

subsection \<open>The header middleware\<close>

text \<open>
  C6. For a request with a headers object, the header middleware invokes the next handler
  on arguments whose request headers hold \<^verbatim>\<open>x-new-relic-disable-dt\<close> with the value
  \<^verbatim>\<open>true\<close>; these are the arguments as they are when the middleware is done; and its
  outcome is the outcome of the next handler.
\<close>

theorem headerMiddleware_sets_header:
  assumes "request_headers args = Inr (JObj hs)"
  shows "\<exists>args' hs'.
     headerMiddleware sh next args = ((next args', [NextInvoked args']), args')
     \<and> request_headers args' = Inr (JObj hs')
     \<and> map_of hs' ''x-new-relic-disable-dt'' = Some (JStr ''true'')"
proof -
  from headerMiddleware_wellformed [OF assms, of sh "next"]
  obtain args' where "headerMiddleware sh next args = ((next args', [NextInvoked args']), args')"
    and "request_headers args' = Inr (JObj (AList.update ''x-new-relic-disable-dt'' (JStr ''true'') hs))"
    by blast
  moreover have "map_of (AList.update ''x-new-relic-disable-dt'' (JStr ''true'') hs)
      ''x-new-relic-disable-dt'' = Some (JStr ''true'')"
    by (simp add: update_conv')
  ultimately show ?thesis by blast
qed

theorem headerMiddleware_sets_header_witness:
  "\<exists>args' hs'.
     headerMiddleware sample_shim (\<lambda>a. Inr (JStr ''done'')) sample_args =
       ((Inr (JStr ''done''), [NextInvoked args']), args')
     \<and> request_headers args' = Inr (JObj hs')
     \<and> map_of hs' ''x-new-relic-disable-dt'' = Some (JStr ''true'')"
proof -
  have "request_headers sample_args =
      Inr (JObj [(''host'', JStr ''dynamodb.us-east-1.amazonaws.com''),
                 (''x-new-relic-disable-dt'', JStr ''false'')])"
    by (simp add: request_headers_def sample_args_def)
  from headerMiddleware_sets_header [OF this, of sample_shim "\<lambda>a. Inr (JStr ''done'')"]
  show ?thesis by simp
qed

text \<open>
  C10. After the header middleware, the request headers are the headers it was given with
  \<^verbatim>\<open>x-new-relic-disable-dt\<close> set to \<^verbatim>\<open>true\<close>: every other entry is as it was, none is removed,
  and an entry of \<^verbatim>\<open>x-new-relic-disable-dt\<close> that was there is overwritten.
\<close>

theorem headerMiddleware_frame:
  assumes "request_headers args = Inr (JObj hs)"
  shows "\<exists>hs'.
     request_headers (snd (headerMiddleware sh next args)) = Inr (JObj hs')
     \<and> map_of hs' = (map_of hs)(''x-new-relic-disable-dt'' \<mapsto> JStr ''true'')"
proof -
  from headerMiddleware_wellformed [OF assms, of sh "next"]
  show ?thesis by (auto simp: update_conv')
qed

theorem headerMiddleware_frame_witness:
  "\<exists>hs'.
     request_headers (snd (headerMiddleware sample_shim (\<lambda>a. Inr (JStr ''done'')) sample_args))
       = Inr (JObj hs')
     \<and> map_of hs' ''host'' = Some (JStr ''dynamodb.us-east-1.amazonaws.com'')
     \<and> map_of hs' ''x-new-relic-disable-dt'' = Some (JStr ''true'')
     \<and> map_of hs' ''accept'' = None"
proof -
  have "request_headers sample_args =
      Inr (JObj [(''host'', JStr ''dynamodb.us-east-1.amazonaws.com''),
                 (''x-new-relic-disable-dt'', JStr ''false'')])"
    by (simp add: request_headers_def sample_args_def)
  from headerMiddleware_frame [OF this, of sample_shim "\<lambda>a. Inr (JStr ''done'')"]
  obtain hs' where "request_headers (snd (headerMiddleware sample_shim (\<lambda>a. Inr (JStr ''done'')) sample_args))
       = Inr (JObj hs')"
    and "map_of hs' = (map_of [(''host'', JStr ''dynamodb.us-east-1.amazonaws.com''),
                 (''x-new-relic-disable-dt'', JStr ''false'')])(''x-new-relic-disable-dt'' \<mapsto> JStr ''true'')"
    by blast
  then show ?thesis by simp
qed

subsection \<open>The plugin\<close>

text \<open>
  C7. When the stack accepts both, \<^verbatim>\<open>applyToStack\<close> adds two entries to it and no more,
  \<^verbatim>\<open>NewRelicHeader\<close> at the step \<^verbatim>\<open>finalizeRequest\<close> with the priority \<^verbatim>\<open>low\<close> and then
  \<^verbatim>\<open>NewRelicDeserialize\<close> at the step \<^verbatim>\<open>deserialize\<close>, and returns \<^verbatim>\<open>undefined\<close>. A throw of
  either registration is not caught: it is the outcome of \<^verbatim>\<open>applyToStack\<close>, and what was
  registered before it stays on the stack.
\<close>

theorem applyToStack_registers_two:
  "(refuses clientStack
       \<lparr>handler = HeaderMiddleware sh, name = ''NewRelicHeader'',
        step = ''finalizeRequest'', priority = Some ''low''\<rparr> = None \<longrightarrow>
    refuses (clientStack @
       [\<lparr>handler = HeaderMiddleware sh, name = ''NewRelicHeader'',
         step = ''finalizeRequest'', priority = Some ''low''\<rparr>])
       \<lparr>handler = AttrMiddleware sh cfg, name = ''NewRelicDeserialize'',
        step = ''deserialize'', priority = None\<rparr> = None \<longrightarrow>
    applyToStack sh cfg refuses clientStack =
      (Inr JUndefined,
       clientStack @
       [\<lparr>handler = HeaderMiddleware sh, name = ''NewRelicHeader'',
         step = ''finalizeRequest'', priority = Some ''low''\<rparr>,
        \<lparr>handler = AttrMiddleware sh cfg, name = ''NewRelicDeserialize'',
         step = ''deserialize'', priority = None\<rparr>]))
   \<and> (\<forall>err. refuses clientStack (header_entry sh) = Some err \<longrightarrow>
          applyToStack sh cfg refuses clientStack = (Inl err, clientStack))
   \<and> (\<forall>err. refuses clientStack (header_entry sh) = None \<longrightarrow>
          refuses (clientStack @ [header_entry sh]) (attr_entry sh cfg) = Some err \<longrightarrow>
          applyToStack sh cfg refuses clientStack = (Inl err, clientStack @ [header_entry sh]))"
  by (simp add: applyToStack_def stack_add_def header_entry_def attr_entry_def)

theorem applyToStack_registers_two_witness:
  "map (\<lambda>e. (name e, step e, priority e))
       (snd (applyToStack sample_shim sample_config (\<lambda>s e. None) [])) =
     [(''NewRelicHeader'', ''finalizeRequest'', Some ''low''),
      (''NewRelicDeserialize'', ''deserialize'', None)]
   \<and> fst (applyToStack sample_shim sample_config (\<lambda>s e. None) []) = Inr JUndefined
   \<and> applyToStack sample_shim sample_config (\<lambda>s e. Some TypeError) [] = (Inl TypeError, [])
   \<and> applyToStack sample_shim sample_config
        (\<lambda>s e. if name e = ''NewRelicDeserialize'' then Some TypeError else None) []
      = (Inl TypeError, [header_entry sample_shim])"
proof -
  note t = applyToStack_registers_two
  have a: "applyToStack sample_shim sample_config (\<lambda>s e. None) [] =
      (Inr JUndefined,
       [\<lparr>handler = HeaderMiddleware sample_shim, name = ''NewRelicHeader'',
         step = ''finalizeRequest'', priority = Some ''low''\<rparr>,
        \<lparr>handler = AttrMiddleware sample_shim sample_config, name = ''NewRelicDeserialize'',
         step = ''deserialize'', priority = None\<rparr>])"
    using t [of "\<lambda>s e. None" "[]" sample_shim sample_config] by simp
  have b: "applyToStack sample_shim sample_config (\<lambda>s e. Some TypeError) [] = (Inl TypeError, [])"
    using t [of "\<lambda>s e. Some TypeError" "[]" sample_shim sample_config] by simp
  have c: "applyToStack sample_shim sample_config
        (\<lambda>s e. if name e = ''NewRelicDeserialize'' then Some TypeError else None) []
      = (Inl TypeError, [header_entry sample_shim])"
    using t [of "\<lambda>s e. if name e = ''NewRelicDeserialize'' then Some TypeError else None" "[]"
        sample_shim sample_config]
    by (simp add: header_entry_def attr_entry_def)
  from a b c show ?thesis by simp
qed

end
